theory Spec2Isabelle
  imports Complex_Main "HOL-Library.Word"
begin

unbundle bit_operations_syntax

section \<open>Data model\<close>

text \<open>
  The module \<^verbatim>\<open>src/lib/crypto.ts\<close> encrypts and decrypts one file with a password.
  Byte buffers (\<^verbatim>\<open>Uint8Array\<close>, \<^verbatim>\<open>ArrayBuffer\<close>) are lists of 8-bit words, JavaScript
  strings are lists of UTF-16 code units, and a JavaScript number that counts bytes or
  indexes a buffer is a \<open>nat\<close>. Buffers are unbounded: running out of memory is not
  modelled.
\<close>

type_synonym byte = "8 word"
type_synonym bytes = "byte list"
type_synonym jsstring = "16 word list"

definition js :: "string \<Rightarrow> jsstring" where
  "js s = map (\<lambda>c. of_nat (of_char c)) s"

text \<open>
  The value \<^verbatim>\<open>JSON.parse\<close> returns. An object is the list of its own properties; a
  property read takes the first binding of a key. A number is a finite rational or one
  of the two infinities (a JSON numeral never denotes NaN).
\<close>

datatype number = Finite rat | PosInfinity | NegInfinity

datatype json =
    JNull
  | JBool bool
  | JNumber number
  | JString jsstring
  | JArray "json list"
  | JObject "(jsstring \<times> json) list"

text \<open>
  The exceptions the two functions can end with: the \<^verbatim>\<open>Error\<close> that \<^verbatim>\<open>decryptFile\<close>
  throws itself, with its message, and the built-in errors of the operations it calls.
\<close>

datatype error = Error jsstring | RangeError | SyntaxError | TypeError

record File =
  name :: jsstring
  type :: jsstring
  contents :: bytes

text \<open>A \<^verbatim>\<open>Blob\<close>: its bytes and its \<^verbatim>\<open>type\<close>, as the constructor has normalised it.\<close>

record blob =
  blob_parts :: bytes
  blob_type :: jsstring

record decrypted =
  blob :: blob
  filename :: json
  mimeType :: json

section \<open>The platform\<close>

text \<open>
  The Web Crypto, encoding and JSON functions that the module calls belong to the
  browser and are parameters of the model.
  \<^item> \<open>subtle_deriveKey raw salt iterations length\<close> is \<^verbatim>\<open>crypto.subtle.deriveKey\<close> with
    PBKDF2 and SHA-256 on the key imported from the bytes \<open>raw\<close>;
  \<^item> \<open>subtle_encrypt key iv data\<close> and \<open>subtle_decrypt key iv data\<close> are AES-GCM;
    \<open>subtle_decrypt\<close> is \<open>None\<close> where the promise is rejected (the code discards
    the reason);
  \<^item> \<open>JSON_parse\<close> is \<open>None\<close> where \<^verbatim>\<open>JSON.parse\<close> throws its \<^verbatim>\<open>SyntaxError\<close>;
  \<^item> \<open>ToString\<close> is the conversion to a string of a value that is not a string, which
    the \<^verbatim>\<open>Blob\<close> constructor applies to its \<^verbatim>\<open>type\<close> option.
\<close>

record 'k platform =
  TextEncoder_encode :: "jsstring \<Rightarrow> bytes"
  TextDecoder_decode :: "bytes \<Rightarrow> jsstring"
  JSON_stringify :: "json \<Rightarrow> jsstring"
  JSON_parse :: "jsstring \<Rightarrow> json option"
  ToString :: "json \<Rightarrow> jsstring"
  subtle_deriveKey :: "bytes \<Rightarrow> bytes \<Rightarrow> int \<Rightarrow> int \<Rightarrow> 'k"
  subtle_encrypt :: "'k \<Rightarrow> bytes \<Rightarrow> bytes \<Rightarrow> bytes"
  subtle_decrypt :: "'k \<Rightarrow> bytes \<Rightarrow> bytes \<Rightarrow> bytes option"

text \<open>
  \<^verbatim>\<open>crypto.getRandomValues\<close> fills a buffer from the random source, here the infinite
  sequence of the bytes still to come; it returns the buffer and the rest of the source.
\<close>

type_synonym entropy = "nat \<Rightarrow> byte"

definition getRandomValues :: "bytes \<Rightarrow> entropy \<Rightarrow> bytes \<times> entropy" where
  "getRandomValues array e = (map e [0..<length array], \<lambda>i. e (i + length array))"

text \<open>
  \<^verbatim>\<open>new Blob([bytes], { type: t })\<close>. The constructor converts the option to a string;
  a string with a character outside U+0020 to U+007E becomes the empty string, and any
  other string is put in ASCII lower case.
\<close>

definition ascii_lowercase :: "16 word \<Rightarrow> 16 word" where
  "ascii_lowercase c = (if 0x41 \<le> c \<and> c \<le> 0x5A then c + 0x20 else c)"

definition normalize_type :: "jsstring \<Rightarrow> jsstring" where
  "normalize_type t =
     (if list_all (\<lambda>c. 0x20 \<le> c \<and> c \<le> 0x7E) t then map ascii_lowercase t else [])"

definition Blob_new :: "'k platform \<Rightarrow> bytes \<Rightarrow> json \<Rightarrow> blob" where
  "Blob_new P parts t =
     \<lparr>blob_parts = parts,
      blob_type = normalize_type (case t of JString s \<Rightarrow> s | _ \<Rightarrow> ToString P t)\<rparr>"

section \<open>Typed arrays\<close>

definition Uint8Array_new :: "nat \<Rightarrow> bytes" where
  "Uint8Array_new n = replicate n 0"

text \<open>
  \<^verbatim>\<open>target.set(source, offset)\<close> overwrites a window of the target and throws a
  \<^verbatim>\<open>RangeError\<close> when the source does not fit.
\<close>

definition set_at :: "bytes \<Rightarrow> bytes \<Rightarrow> nat \<Rightarrow> error + bytes" where
  "set_at target source offset =
     (if offset + length source > length target then Inl RangeError
      else Inr (take offset target @ source @ drop (offset + length source) target))"

text \<open>\<^verbatim>\<open>array.slice(start, end)\<close> for indices that are not negative; both are clamped.\<close>

definition slice :: "bytes \<Rightarrow> nat \<Rightarrow> nat \<Rightarrow> bytes" where
  "slice array start fin = take (fin - start) (drop start array)"

text \<open>
  A \<^verbatim>\<open>Uint32Array\<close> stores each element in the byte order of the machine, which is
  little-endian on the platforms browsers run on. \<open>Uint32Array_of\<close> is
  \<^verbatim>\<open>new Uint32Array([n])\<close>, which reduces the number modulo \<open>2 ^ 32\<close>;
  \<open>Uint32Array_buffer\<close> is the \<^verbatim>\<open>.buffer\<close> of such an array; \<open>Uint32Array_view\<close> is
  \<^verbatim>\<open>new Uint32Array(buffer)\<close>, which throws a \<^verbatim>\<open>RangeError\<close> unless the byte length is
  a multiple of 4.
\<close>

definition Uint32Array_of :: "nat list \<Rightarrow> 32 word list" where
  "Uint32Array_of ns = map of_nat ns"

definition u32_bytes :: "32 word \<Rightarrow> bytes" where
  "u32_bytes w = [ucast w, ucast (drop_bit 8 w), ucast (drop_bit 16 w), ucast (drop_bit 24 w)]"

definition Uint32Array_buffer :: "32 word list \<Rightarrow> bytes" where
  "Uint32Array_buffer ws = concat (map u32_bytes ws)"

fun u32_elements :: "bytes \<Rightarrow> 32 word list" where
  "u32_elements (b0 # b1 # b2 # b3 # rest) =
     (ucast b0 OR push_bit 8 (ucast b1) OR push_bit 16 (ucast b2) OR push_bit 24 (ucast b3))
       # u32_elements rest"
| "u32_elements _ = []"

definition Uint32Array_view :: "bytes \<Rightarrow> error + 32 word list" where
  "Uint32Array_view buffer =
     (if length buffer mod 4 \<noteq> 0 then Inl RangeError else Inr (u32_elements buffer))"

text \<open>\<^verbatim>\<open>array[0]\<close>, which is \<^verbatim>\<open>undefined\<close> (here \<open>None\<close>) on an empty array.\<close>

definition element0 :: "'a list \<Rightarrow> 'a option" where
  "element0 xs = (case xs of [] \<Rightarrow> None | x # _ \<Rightarrow> Some x)"

section \<open>Key derivation and encryption\<close>

definition ALGORITHM :: jsstring where "ALGORITHM = js ''AES-GCM''"
definition KEY_LENGTH :: int where "KEY_LENGTH = 256"
definition IV_LENGTH :: nat where "IV_LENGTH = 12"
definition SALT_LENGTH :: nat where "SALT_LENGTH = 16"
definition ITERATIONS :: int where "ITERATIONS = 100000"

definition deriveKey :: "'k platform \<Rightarrow> jsstring \<Rightarrow> bytes \<Rightarrow> 'k" where
  "deriveKey P password salt =
     (let passwordBuffer = TextEncoder_encode P password
      in subtle_deriveKey P passwordBuffer salt ITERATIONS KEY_LENGTH)"

text \<open>
  \<^verbatim>\<open>onProgress?.(p)\<close>: the callback, when there is one, acts on the state of the caller.
\<close>

definition report :: "(real \<Rightarrow> 's \<Rightarrow> 's) option \<Rightarrow> real \<Rightarrow> 's \<Rightarrow> 's" where
  "report onProgress p s = (case onProgress of None \<Rightarrow> s | Some f \<Rightarrow> f p s)"

definition bind_result :: "error + 'a \<Rightarrow> ('a \<Rightarrow> error + 'b) \<Rightarrow> error + 'b" where
  "bind_result m f = (case m of Inl e \<Rightarrow> Inl e | Inr x \<Rightarrow> f x)"

text \<open>
  Lines 66 to 79 of \<^verbatim>\<open>encryptFile\<close>: the metadata record, its JSON text, the bytes of
  the text, and the buffer handed to AES-GCM.
\<close>

definition metadata_record :: "File \<Rightarrow> json" where
  "metadata_record f = JObject [(js ''name'', JString (name f)), (js ''type'', JString (type f))]"

definition encrypt_metadata :: "'k platform \<Rightarrow> File \<Rightarrow> jsstring" where
  "encrypt_metadata P f = JSON_stringify P (metadata_record f)"

definition encrypt_metadataBytes :: "'k platform \<Rightarrow> File \<Rightarrow> bytes" where
  "encrypt_metadataBytes P f = TextEncoder_encode P (encrypt_metadata P f)"

definition dataToEncrypt :: "'k platform \<Rightarrow> File \<Rightarrow> error + bytes" where
  "dataToEncrypt P f =
     (let metadataBytes = encrypt_metadataBytes P f;
          metadataLength = Uint32Array_of [length metadataBytes];
          fileBuffer = contents f;
          buffer = Uint8Array_new (4 + length metadataBytes + length fileBuffer)
      in bind_result (set_at buffer (Uint32Array_buffer metadataLength) 0) (\<lambda>buffer.
         bind_result (set_at buffer metadataBytes 4) (\<lambda>buffer.
         set_at buffer fileBuffer (4 + length metadataBytes))))"

text \<open>Lines 92 to 97: salt, nonce and ciphertext copied into one buffer.\<close>

definition combine :: "bytes \<Rightarrow> bytes \<Rightarrow> bytes \<Rightarrow> error + bytes" where
  "combine salt iv encryptedData =
     (let result = Uint8Array_new (length salt + length iv + length encryptedData)
      in bind_result (set_at result salt 0) (\<lambda>result.
         bind_result (set_at result iv (length salt)) (\<lambda>result.
         set_at result encryptedData (length salt + length iv))))"

text \<open>
  \<open>encryptFile\<close> returns the blob or the exception, the rest of the random source and
  the state the progress callback has left.
\<close>

definition encryptFile ::
  "'k platform \<Rightarrow> File \<Rightarrow> jsstring \<Rightarrow> (real \<Rightarrow> 's \<Rightarrow> 's) option \<Rightarrow> entropy \<Rightarrow> 's
     \<Rightarrow> (error + blob) \<times> entropy \<times> 's" where
  "encryptFile P f password onProgress e s =
     (let s = report onProgress 10 s;
          (salt, e) = getRandomValues (Uint8Array_new SALT_LENGTH) e;
          (iv, e) = getRandomValues (Uint8Array_new IV_LENGTH) e;
          s = report onProgress 20 s;
          key = deriveKey P password salt;
          s = report onProgress 30 s;
          s = report onProgress 50 s
      in case dataToEncrypt P f of
           Inl err \<Rightarrow> (Inl err, e, s)
         | Inr plain \<Rightarrow>
            (let s = report onProgress 70 s;
                 encryptedData = subtle_encrypt P key iv plain;
                 s = report onProgress 90 s
             in case combine salt iv encryptedData of
                  Inl err \<Rightarrow> (Inl err, e, s)
                | Inr result \<Rightarrow>
                   (let s = report onProgress 100 s
                    in (Inr (Blob_new P result (JString (js ''application/encrypted''))),
                        e, s))))"

section \<open>Decryption\<close>

definition auth_message :: jsstring where
  "auth_message = js ''Contrase'' @ [0x221A, 0xB1] @ js ''a incorrecta o archivo corrupto''"

text \<open>
  \<^verbatim>\<open>metadata.name\<close> and \<^verbatim>\<open>metadata.type\<close>: reading a property of \<^verbatim>\<open>null\<close> throws a
  \<^verbatim>\<open>TypeError\<close>; an object yields its own property or \<^verbatim>\<open>undefined\<close> (\<open>None\<close>); no
  prototype of the other values defines either of the two keys.
\<close>

definition property :: "json \<Rightarrow> jsstring \<Rightarrow> error + json option" where
  "property v k =
     (case v of
        JNull \<Rightarrow> Inl TypeError
      | JObject props \<Rightarrow> Inr (map_of props k)
      | _ \<Rightarrow> Inr None)"

fun truthy :: "json \<Rightarrow> bool" where
  "truthy JNull = False"
| "truthy (JBool b) = b"
| "truthy (JNumber n) = (n \<noteq> Finite 0)"
| "truthy (JString s) = (s \<noteq> [])"
| "truthy (JArray _) = True"
| "truthy (JObject _) = True"

text \<open>\<^verbatim>\<open>v || d\<close> for a literal \<open>d\<close>.\<close>

definition or_else :: "json option \<Rightarrow> jsstring \<Rightarrow> json" where
  "or_else v d = (case v of None \<Rightarrow> JString d | Some x \<Rightarrow> if truthy x then x else JString d)"

text \<open>
  Lines 144 to 156 of \<^verbatim>\<open>decryptFile\<close>: the decrypted buffer is split into the length,
  the metadata, which is parsed, and the file. With an empty buffer \<^verbatim>\<open>metadataLength\<close>
  is \<^verbatim>\<open>undefined\<close>, \<^verbatim>\<open>4 + metadataLength\<close> is NaN, and \<^verbatim>\<open>slice\<close> reads NaN as 0;
  \<open>decrypt_metadataEnd\<close> is that index.
\<close>

definition decrypt_metadataLength :: "bytes \<Rightarrow> error + 32 word option" where
  "decrypt_metadataLength decryptedBytes =
     bind_result (Uint32Array_view (slice decryptedBytes 0 4)) (\<lambda>view. Inr (element0 view))"

definition decrypt_metadataEnd :: "32 word option \<Rightarrow> nat" where
  "decrypt_metadataEnd len = (case len of None \<Rightarrow> 0 | Some n \<Rightarrow> 4 + unat n)"

definition split_decrypted :: "'k platform \<Rightarrow> bytes \<Rightarrow> error + json \<times> bytes" where
  "split_decrypted P decryptedBytes =
     bind_result (decrypt_metadataLength decryptedBytes) (\<lambda>metadataLength.
       let metadataBytes = slice decryptedBytes 4 (decrypt_metadataEnd metadataLength)
       in case JSON_parse P (TextDecoder_decode P metadataBytes) of
            None \<Rightarrow> Inl SyntaxError
          | Some metadata \<Rightarrow>
             (let fileContent = drop (decrypt_metadataEnd metadataLength) decryptedBytes
              in Inr (metadata, fileContent)))"

text \<open>Lines 160 to 164: the object returned, with its three reads of the metadata.\<close>

definition restored :: "'k platform \<Rightarrow> json \<Rightarrow> bytes \<Rightarrow> error + decrypted" where
  "restored P metadata fileContent =
     bind_result (property metadata (js ''type'')) (\<lambda>t.
     bind_result (property metadata (js ''name'')) (\<lambda>n.
     Inr \<lparr>blob = Blob_new P fileContent (or_else t (js ''application/octet-stream'')),
          filename = or_else n (js ''archivo_descifrado''),
          mimeType = or_else t (js ''application/octet-stream'')\<rparr>))"

text \<open>What lines 144 to 164 return or throw for a decrypted buffer.\<close>

definition unpack :: "'k platform \<Rightarrow> bytes \<Rightarrow> error + decrypted" where
  "unpack P decryptedBytes =
     bind_result (split_decrypted P decryptedBytes) (\<lambda>(metadata, fileContent).
       restored P metadata fileContent)"

text \<open>
  \<open>decryptFile\<close> takes the bytes of the file it is given (\<^verbatim>\<open>file.arrayBuffer()\<close>), the
  only part of the file it reads. The last progress call (line 158) comes after the
  metadata is parsed and before the returned object reads it.
\<close>

definition decryptFile ::
  "'k platform \<Rightarrow> bytes \<Rightarrow> jsstring \<Rightarrow> (real \<Rightarrow> 's \<Rightarrow> 's) option \<Rightarrow> 's
     \<Rightarrow> (error + decrypted) \<times> 's" where
  "decryptFile P fileBuffer password onProgress s =
     (let s = report onProgress 10 s;
          data = fileBuffer;
          s = report onProgress 20 s;
          salt = slice data 0 SALT_LENGTH;
          iv = slice data SALT_LENGTH (SALT_LENGTH + IV_LENGTH);
          encryptedData = drop (SALT_LENGTH + IV_LENGTH) data;
          s = report onProgress 30 s;
          key = deriveKey P password salt;
          s = report onProgress 50 s
      in case subtle_decrypt P key iv encryptedData of
           None \<Rightarrow> (Inl (Error auth_message), s)
         | Some decryptedData \<Rightarrow>
            (let s = report onProgress 70 s
             in case split_decrypted P decryptedData of
                  Inl err \<Rightarrow> (Inl err, s)
                | Inr (metadata, fileContent) \<Rightarrow>
                   (let s = report onProgress 100 s
                    in (restored P metadata fileContent, s))))"

section \<open>Properties of the platform and of a container\<close>

text \<open>The salt and the nonce that \<open>encryptFile\<close> draws from the random source.\<close>

definition drawn_salt :: "entropy \<Rightarrow> bytes" where
  "drawn_salt e = fst (getRandomValues (Uint8Array_new SALT_LENGTH) e)"

definition drawn_iv :: "entropy \<Rightarrow> bytes" where
  "drawn_iv e =
     fst (getRandomValues (Uint8Array_new IV_LENGTH)
            (snd (getRandomValues (Uint8Array_new SALT_LENGTH) e)))"

text \<open>
  The bytes of the blob that \<open>encryptFile\<close> returns. They do not depend on the progress
  callback, and \<open>encryptFile\<close> does not fail (lemma \<open>encryptFile_fst\<close>).
\<close>

definition container :: "'k platform \<Rightarrow> File \<Rightarrow> jsstring \<Rightarrow> entropy \<Rightarrow> bytes" where
  "container P f password e =
     (case fst (encryptFile P f password None e ()) of Inl err \<Rightarrow> [] | Inr b \<Rightarrow> blob_parts b)"

text \<open>
  What the theorems ask of the platform, each at the values it is used on: decoding the
  encoded text gives the text back, parsing the JSON text of a value gives the value
  back, and AES-GCM decryption with the key and nonce of the encryption gives the
  plaintext back.
\<close>

definition text_roundtrip :: "'k platform \<Rightarrow> jsstring \<Rightarrow> bool" where
  "text_roundtrip P s \<longleftrightarrow> TextDecoder_decode P (TextEncoder_encode P s) = s"

definition json_roundtrip :: "'k platform \<Rightarrow> json \<Rightarrow> bool" where
  "json_roundtrip P v \<longleftrightarrow> JSON_parse P (JSON_stringify P v) = Some v"

definition aead_roundtrip :: "'k platform \<Rightarrow> 'k \<Rightarrow> bytes \<Rightarrow> bytes \<Rightarrow> bool" where
  "aead_roundtrip P key iv plain \<longleftrightarrow>
     subtle_decrypt P key iv (subtle_encrypt P key iv plain) = Some plain"


text \<open>
  \<open>opened P data password\<close> is what AES-GCM returns in \<open>decryptFile\<close>: the plaintext,
  or \<open>None\<close> when it rejects the ciphertext of the container \<open>data\<close> under the key
  derived from \<open>password\<close> and the salt of the container.
\<close>

definition opened :: "'k platform \<Rightarrow> bytes \<Rightarrow> jsstring \<Rightarrow> bytes option" where
  "opened P data password =
     subtle_decrypt P (deriveKey P password (slice data 0 SALT_LENGTH))
       (slice data SALT_LENGTH (SALT_LENGTH + IV_LENGTH)) (drop (SALT_LENGTH + IV_LENGTH) data)"

text \<open>
  The value of a byte sequence as a little-endian unsigned integer, in the words of the
  format description: the first byte is the least significant.
\<close>

fun le_value :: "bytes \<Rightarrow> nat" where
  "le_value [] = 0"
| "le_value (b # bs) = unat b + 256 * le_value bs"

section \<open>Formatting a file size\<close>

text \<open>
  \<^verbatim>\<open>formatFileSize\<close> receives the \<^verbatim>\<open>size\<close> of a file, a whole number of bytes.
  \<^verbatim>\<open>Math.log\<close>, the division and \<^verbatim>\<open>Math.pow\<close> are read as the operations on real
  numbers that they approximate; rounding of doubles is not modelled. The quotient of
  doubles can reach an integer that the quotient of reals stays just below: this begins
  three bytes below \<open>1024 ^ 5\<close>, where the code has the index 5 and this definition 4.
  Both are past the end of the units there. An index outside the array reads
  \<^verbatim>\<open>undefined\<close> (\<open>None\<close>), which the template prints as the word \<^verbatim>\<open>undefined\<close>.
\<close>

definition sizes :: "jsstring list" where
  "sizes = [js ''B'', js ''KB'', js ''MB'', js ''GB'']"

definition at_index :: "'a list \<Rightarrow> int \<Rightarrow> 'a option" where
  "at_index xs i = (if 0 \<le> i \<and> i < int (length xs) then Some (xs ! nat i) else None)"

text \<open>The index \<^verbatim>\<open>Math.floor(Math.log(bytes) / Math.log(k))\<close>.\<close>

definition unit_index :: "real \<Rightarrow> nat \<Rightarrow> int" where
  "unit_index k bytes = \<lfloor>ln (real bytes) / ln k\<rfloor>"

fun decimal :: "nat \<Rightarrow> jsstring" where
  "decimal n = (if n < 10 then [of_nat (48 + n)] else decimal (n div 10) @ [of_nat (48 + n mod 10)])"

text \<open>
  \<^verbatim>\<open>x.toFixed(1)\<close> is the decimal \<open>n / 10\<close> nearest to \<open>x\<close>, the larger \<open>n\<close> on a tie;
  \<open>toFixed1\<close> is that \<open>n\<close>. \<^verbatim>\<open>parseFloat\<close> reads the decimal back and the template
  prints it in its shortest form, without a final \<^verbatim>\<open>.0\<close>.
\<close>

definition toFixed1 :: "real \<Rightarrow> nat" where
  "toFixed1 x = nat \<lfloor>10 * x + 1 / 2\<rfloor>"

definition print_tenths :: "nat \<Rightarrow> jsstring" where
  "print_tenths n =
     decimal (n div 10) @ (if n mod 10 = 0 then [] else js ''.'' @ decimal (n mod 10))"

definition formatFileSize :: "nat \<Rightarrow> jsstring" where
  "formatFileSize bytes =
     (if bytes = 0 then js ''0 B''
      else let k = 1024;
               i = unit_index k bytes
           in print_tenths (toFixed1 (real bytes / k powr (real_of_int i))) @ js '' '' @
              (case at_index sizes i of None \<Rightarrow> js ''undefined'' | Some u \<Rightarrow> u))"

section \<open>A small platform for examples\<close>

text \<open>
  The examples run the model on a platform small enough to evaluate. Its text encoding
  keeps the low byte of each code unit, which is UTF-8 on ASCII text. Its JSON covers
  \<^verbatim>\<open>null\<close>, strings and objects of these, with the double quote and the backslash
  escaped by a backslash; a repeated key keeps its first place and its last value.
\<close>

definition ex_encode :: "jsstring \<Rightarrow> bytes" where
  "ex_encode s = map ucast s"

definition ex_decode :: "bytes \<Rightarrow> jsstring" where
  "ex_decode b = map ucast b"

fun ex_escape :: "jsstring \<Rightarrow> jsstring" where
  "ex_escape [] = []"
| "ex_escape (c # cs) = (if c = 0x22 \<or> c = 0x5C then 0x5C # c # ex_escape cs else c # ex_escape cs)"

definition ex_quote :: "jsstring \<Rightarrow> jsstring" where
  "ex_quote s = js ''\"'' @ ex_escape s @ js ''\"''"

fun ex_atom :: "json \<Rightarrow> jsstring" where
  "ex_atom (JString s) = ex_quote s"
| "ex_atom _ = js ''null''"

fun ex_members :: "(jsstring \<times> json) list \<Rightarrow> jsstring" where
  "ex_members [] = []"
| "ex_members [(k, v)] = ex_quote k @ js '':'' @ ex_atom v"
| "ex_members ((k, v) # ps) = ex_quote k @ js '':'' @ ex_atom v @ js '','' @ ex_members ps"

fun ex_stringify :: "json \<Rightarrow> jsstring" where
  "ex_stringify (JObject ps) = js ''{'' @ ex_members ps @ js ''}''"
| "ex_stringify v = ex_atom v"

datatype token = TLBrace | TRBrace | TColon | TComma | TNull | TString jsstring

datatype lexer = Outside | Inside jsstring | Escaped jsstring

fun ex_lex :: "lexer \<Rightarrow> jsstring \<Rightarrow> token list option" where
  "ex_lex Outside [] = Some []"
| "ex_lex Outside (c # cs) =
     (if c = 0x7B then map_option ((#) TLBrace) (ex_lex Outside cs)
      else if c = 0x7D then map_option ((#) TRBrace) (ex_lex Outside cs)
      else if c = 0x3A then map_option ((#) TColon) (ex_lex Outside cs)
      else if c = 0x2C then map_option ((#) TComma) (ex_lex Outside cs)
      else if c = 0x22 then ex_lex (Inside []) cs
      else if c = 0x6E then
        (case cs of
           u # l # m # rest \<Rightarrow>
             if u = 0x75 \<and> l = 0x6C \<and> m = 0x6C
             then map_option ((#) TNull) (ex_lex Outside rest) else None
         | _ \<Rightarrow> None)
      else None)"
| "ex_lex (Inside acc) [] = None"
| "ex_lex (Inside acc) (c # cs) =
     (if c = 0x22 then map_option ((#) (TString (rev acc))) (ex_lex Outside cs)
      else if c = 0x5C then ex_lex (Escaped acc) cs
      else ex_lex (Inside (c # acc)) cs)"
| "ex_lex (Escaped acc) [] = None"
| "ex_lex (Escaped acc) (c # cs) = ex_lex (Inside (c # acc)) cs"

fun put_property :: "jsstring \<Rightarrow> json \<Rightarrow> (jsstring \<times> json) list \<Rightarrow> (jsstring \<times> json) list" where
  "put_property k v [] = [(k, v)]"
| "put_property k v ((k', v') # ps) =
     (if k = k' then (k, v) # ps else (k', v') # put_property k v ps)"

fun ex_value :: "token \<Rightarrow> json option" where
  "ex_value TNull = Some JNull"
| "ex_value (TString s) = Some (JString s)"
| "ex_value _ = None"

fun ex_object :: "(jsstring \<times> json) list \<Rightarrow> token list \<Rightarrow> json option" where
  "ex_object ps [TString k, TColon, t, TRBrace] =
     map_option (\<lambda>v. JObject (put_property k v ps)) (ex_value t)"
| "ex_object ps (TString k # TColon # t # TComma # ts) =
     (case ex_value t of None \<Rightarrow> None | Some v \<Rightarrow> ex_object (put_property k v ps) ts)"
| "ex_object ps _ = None"

fun ex_tokens :: "token list \<Rightarrow> json option" where
  "ex_tokens [t] = ex_value t"
| "ex_tokens [TLBrace, TRBrace] = Some (JObject [])"
| "ex_tokens (TLBrace # ts) = ex_object [] ts"
| "ex_tokens _ = None"

definition ex_parse :: "jsstring \<Rightarrow> json option" where
  "ex_parse s = (case ex_lex Outside s of None \<Rightarrow> None | Some ts \<Rightarrow> ex_tokens ts)"

text \<open>
  Its key derivation prepares the raw key as HMAC does (RFC 2104, section 2, with the
  64-byte block of SHA-256): a key longer than a block is replaced by its hash, and the
  key is then filled with zero bytes up to the block. PBKDF2 uses the password only as
  this HMAC key. The hash is a checksum here, and the derived key is a 32-bit digest of
  the block and the salt. The cipher adds a key-dependent byte to every byte and
  appends a 16-byte tag made of the key and a checksum of nonce and ciphertext, which
  decryption checks: it rejects a ciphertext shorter than the tag, as AES-GCM does, and
  a ciphertext made under another key.
\<close>

definition checksum :: "bytes \<Rightarrow> byte" where
  "checksum b = fold (+) b 0"

definition hmac_block :: "bytes \<Rightarrow> bytes" where
  "hmac_block raw =
     (let k = (if length raw > 64 then [checksum raw] else raw)
      in k @ replicate (64 - length k) 0)"

definition digest :: "bytes \<Rightarrow> 32 word" where
  "digest b = fold (\<lambda>x h. h * 31 + ucast x) b 7"

definition ex_deriveKey :: "bytes \<Rightarrow> bytes \<Rightarrow> int \<Rightarrow> int \<Rightarrow> 32 word" where
  "ex_deriveKey raw salt iterations len = digest (hmac_block raw @ salt)"

definition ex_tag :: "32 word \<Rightarrow> bytes \<Rightarrow> bytes \<Rightarrow> bytes" where
  "ex_tag key iv body =
     map (\<lambda>b. b + checksum (iv @ body)) (u32_bytes key @ replicate 12 0)"

definition ex_encrypt :: "32 word \<Rightarrow> bytes \<Rightarrow> bytes \<Rightarrow> bytes" where
  "ex_encrypt key iv plain =
     (let body = map (\<lambda>b. b + ucast key) plain in body @ ex_tag key iv body)"

definition ex_decrypt :: "32 word \<Rightarrow> bytes \<Rightarrow> bytes \<Rightarrow> bytes option" where
  "ex_decrypt key iv data =
     (if length data < 16 then None
      else let body = take (length data - 16) data
           in if drop (length data - 16) data = ex_tag key iv body
              then Some (map (\<lambda>b. b - ucast key) body) else None)"

definition ex_ToString :: "json \<Rightarrow> jsstring" where
  "ex_ToString v = (case v of JNull \<Rightarrow> js ''null'' | _ \<Rightarrow> js ''[object Object]'')"

definition ex_platform :: "32 word platform" where
  "ex_platform =
     \<lparr>TextEncoder_encode = ex_encode, TextDecoder_decode = ex_decode,
      JSON_stringify = ex_stringify, JSON_parse = ex_parse, ToString = ex_ToString,
      subtle_deriveKey = ex_deriveKey, subtle_encrypt = ex_encrypt,
      subtle_decrypt = ex_decrypt\<rparr>"

definition ex_entropy :: entropy where
  "ex_entropy i = of_nat (7 * i + 3)"

definition ex_file :: File where
  "ex_file = \<lparr>name = js ''a.txt'', type = js ''text/plain'', contents = [0x41, 0x42, 0x43]\<rparr>"

definition ex_password :: jsstring where
  "ex_password = js ''correct horse''"

text \<open>The callback that records the percentages it is given, in order.\<close>

definition record_progress :: "real \<Rightarrow> real list \<Rightarrow> real list" where
  "record_progress p tr = tr @ [p]"

text \<open>
  A container with any inner plaintext, as a program that holds the password can write
  it: salt, nonce and the plaintext encrypted under the derived key.
\<close>

definition ex_seal :: "bytes \<Rightarrow> bytes" where
  "ex_seal plain =
     (let salt = drawn_salt ex_entropy; iv = drawn_iv ex_entropy
      in salt @ iv @ ex_encrypt (deriveKey ex_platform ex_password salt) iv plain)"

definition ex_untyped :: File where
  "ex_untyped = \<lparr>name = js ''notes'', type = [], contents = [1, 2, 3]\<rparr>"


section \<open>Buffers and framing\<close>

lemma length_u32_bytes: "length (u32_bytes w) = 4"
  by (simp add: u32_bytes_def)

lemma u32_join_split:
  fixes w :: "32 word"
  shows "(ucast (ucast w :: byte) :: 32 word) OR push_bit 8 (ucast (ucast (drop_bit 8 w) :: byte))
        OR push_bit 16 (ucast (ucast (drop_bit 16 w) :: byte))
        OR push_bit 24 (ucast (ucast (drop_bit 24 w) :: byte)) = w" (is "?lhs = w")
proof (rule bit_word_eqI)
  fix n :: nat
  assume "n < LENGTH(32)"
  then consider "n < 8" | "8 \<le> n" "n < 16" | "16 \<le> n" "n < 24" | "24 \<le> n" "n < 32"
    by fastforce
  then show "bit ?lhs n = bit w n"
    by cases (auto simp add: bit_simps)
qed

lemma u32_elements_bytes: "u32_elements (u32_bytes w @ rest) = w # u32_elements rest"
  by (simp add: u32_bytes_def u32_join_split)

lemma dataToEncrypt_eq:
  "dataToEncrypt P f =
     Inr (u32_bytes (of_nat (length (encrypt_metadataBytes P f)))
          @ encrypt_metadataBytes P f @ contents f)"
  by (simp add: dataToEncrypt_def Let_def Uint8Array_new_def set_at_def bind_result_def
      Uint32Array_of_def Uint32Array_buffer_def length_u32_bytes replicate_add [symmetric])

lemma combine_eq: "combine salt iv ct = Inr (salt @ iv @ ct)"
  by (simp add: combine_def Let_def Uint8Array_new_def set_at_def bind_result_def)

lemma length_drawn [simp]: "length (drawn_salt e) = 16" "length (drawn_iv e) = 12"
  by (simp_all add: drawn_salt_def drawn_iv_def getRandomValues_def Uint8Array_new_def
      SALT_LENGTH_def IV_LENGTH_def)

lemma normalize_type_literals:
  "normalize_type (js ''application/encrypted'') = js ''application/encrypted''"
  "normalize_type (js ''application/octet-stream'') = js ''application/octet-stream''"
  by (simp_all add: normalize_type_def ascii_lowercase_def js_def)

lemma encryptFile_fst:
  "fst (encryptFile P f password onProgress e s) =
     Inr \<lparr>blob_parts = drawn_salt e @ drawn_iv e @
            subtle_encrypt P (deriveKey P password (drawn_salt e)) (drawn_iv e)
              (u32_bytes (of_nat (length (encrypt_metadataBytes P f)))
                @ encrypt_metadataBytes P f @ contents f),
          blob_type = js ''application/encrypted''\<rparr>"
  by (simp add: encryptFile_def Let_def dataToEncrypt_eq combine_eq drawn_salt_def
      drawn_iv_def split_beta Blob_new_def normalize_type_literals)

lemma encryptFile_progress:
  "snd (snd (encryptFile P f password onProgress e s)) =
     fold (report onProgress) [10, 20, 30, 50, 70, 90, 100] s"
  by (simp add: encryptFile_def Let_def dataToEncrypt_eq combine_eq split_beta)

lemma decryptFile_fst:
  "fst (decryptFile P data password onProgress s) =
     (case opened P data password of
        None \<Rightarrow> Inl (Error auth_message)
      | Some plain \<Rightarrow> unpack P plain)"
  by (simp add: decryptFile_def opened_def unpack_def bind_result_def Let_def
      split: option.split sum.split prod.split)

lemma decryptFile_progress_rejected:
  "opened P data password = None \<Longrightarrow>
   snd (decryptFile P data password onProgress s) = fold (report onProgress) [10, 20, 30, 50] s"
  by (simp add: decryptFile_def opened_def Let_def)

lemma opened_container:
  "length salt = 16 \<Longrightarrow> length iv = 12 \<Longrightarrow>
   opened P (salt @ iv @ ct) password = subtle_decrypt P (deriveKey P password salt) iv ct"
  by (simp add: opened_def slice_def SALT_LENGTH_def IV_LENGTH_def)

lemma four_digits:
  fixes n :: nat
  assumes "n < 2 ^ 32"
  shows "n mod 256 + 256 * (n div 256 mod 256 + 256 * (n div 65536 mod 256
        + 256 * (n div 16777216 mod 256))) = n"
proof -
  define a where "a = n div 256"
  define c where "c = a div 256"
  define d where "d = c div 256"
  define r0 where "r0 = n mod 256"
  define r1 where "r1 = a mod 256"
  define r2 where "r2 = c mod 256"
  have n: "n = 256 * a + r0" and a: "a = 256 * c + r1" and c: "c = 256 * d + r2"
    by (simp_all add: a_def c_def d_def r0_def r1_def r2_def)
  have c': "n div 65536 = c" and d': "n div 16777216 = d"
    by (simp_all add: a_def c_def d_def div_mult2_eq)
  have "d < 256"
    using assms unfolding d' [symmetric] by (simp add: less_mult_imp_div_less)
  then have d: "d mod 256 = d" by simp
  have "r0 + 256 * (r1 + 256 * (r2 + 256 * d)) = r0 + 256 * (r1 + 256 * c)"
    using c by simp
  also have "\<dots> = r0 + 256 * a"
    using a by simp
  also have "\<dots> = n"
    using n by simp
  finally have "r0 + 256 * (r1 + 256 * (r2 + 256 * d)) = n" .
  then show ?thesis
    by (simp add: c' d' d r0_def r1_def r2_def a_def)
qed

lemma le_value_u32_bytes: "le_value (u32_bytes w) = unat w"
proof -
  have b: "unat w < 2 ^ 32"
    using unsigned_less [of w] by simp
  have "le_value (u32_bytes w) =
      unat w mod 256 + 256 * (unat w div 256 mod 256 + 256 * (unat w div 65536 mod 256
        + 256 * (unat w div 16777216 mod 256)))"
    by (simp add: u32_bytes_def unsigned_ucast_eq unat_drop_bit_eq take_bit_eq_mod
        drop_bit_eq_div unat_div_distrib)
  also have "\<dots> = unat w"
    using b by (rule four_digits)
  finally show ?thesis .
qed

lemma u32_split_join:
  fixes b0 b1 b2 b3 :: byte
  defines "w \<equiv> (ucast b0 :: 32 word) OR push_bit 8 (ucast b1) OR push_bit 16 (ucast b2)
      OR push_bit 24 (ucast b3)"
  shows "u32_bytes w = [b0, b1, b2, b3]"
proof -
  have "ucast w = b0" "ucast (drop_bit 8 w) = b1" "ucast (drop_bit 16 w) = b2"
    "ucast (drop_bit 24 w) = b3"
    unfolding w_def by (rule bit_word_eqI; auto simp add: bit_simps dest: bit_imp_le_length)+
  then show ?thesis by (simp add: u32_bytes_def)
qed

lemma decrypt_metadataLength_value:
  assumes "length pre = 4"
  shows "\<exists>n. decrypt_metadataLength (pre @ rest) = Inr (Some n) \<and> unat n = le_value pre"
proof -
  from assms obtain b0 b1 b2 b3 where pre: "pre = [b0, b1, b2, b3]"
    by (auto simp add: length_Suc_conv numeral_eq_Suc)
  define w where "w = (ucast b0 :: 32 word) OR push_bit 8 (ucast b1) OR push_bit 16 (ucast b2)
      OR push_bit 24 (ucast b3)"
  have "u32_bytes w = pre"
    unfolding w_def pre by (rule u32_split_join)
  then have "le_value pre = unat w"
    using le_value_u32_bytes [of w] by simp
  moreover have "decrypt_metadataLength (pre @ rest) = Inr (Some w)"
    by (simp add: decrypt_metadataLength_def slice_def Uint32Array_view_def bind_result_def
        element0_def pre w_def)
  ultimately show ?thesis by simp
qed

lemma le_value_bound: "length pre = 4 \<Longrightarrow> le_value pre < 2 ^ 32"
proof -
  assume "length pre = 4"
  then obtain n where "decrypt_metadataLength (pre @ []) = Inr (Some n)" "unat n = le_value pre"
    using decrypt_metadataLength_value by blast
  moreover have "unat n < 2 ^ 32"
    using unsigned_less [of n] by simp
  ultimately show ?thesis
    by simp
qed

text \<open>
  The split of a decrypted buffer of at least four bytes: the little-endian value of
  the first four bytes is the number of metadata bytes taken from the rest.
\<close>

lemma split_decrypted_prefix:
  assumes "length pre = 4"
  shows "split_decrypted P (pre @ rest) =
     (case JSON_parse P (TextDecoder_decode P (take (le_value pre) rest)) of
        None \<Rightarrow> Inl SyntaxError
      | Some metadata \<Rightarrow> Inr (metadata, drop (le_value pre) rest))"
proof -
  obtain n where n: "decrypt_metadataLength (pre @ rest) = Inr (Some n)" "unat n = le_value pre"
    using decrypt_metadataLength_value [OF assms] by blast
  show ?thesis
    using assms n
    by (simp add: split_decrypted_def bind_result_def decrypt_metadataEnd_def slice_def Let_def
        split: option.split)
qed

lemma unpack_prefix:
  assumes "length pre = 4"
  shows "unpack P (pre @ rest) =
     (case JSON_parse P (TextDecoder_decode P (take (le_value pre) rest)) of
        None \<Rightarrow> Inl SyntaxError
      | Some metadata \<Rightarrow> restored P metadata (drop (le_value pre) rest))"
  by (simp add: unpack_def split_decrypted_prefix [OF assms] bind_result_def split: option.split)

lemma unpack_framed:
  assumes "length md < 2 ^ 32"
  shows "unpack P (u32_bytes (of_nat (length md)) @ md @ rest) =
     (case JSON_parse P (TextDecoder_decode P md) of
        None \<Rightarrow> Inl SyntaxError
      | Some metadata \<Rightarrow> restored P metadata rest)"
  using assms
  by (simp add: unpack_prefix length_u32_bytes le_value_u32_bytes unat_of_nat
      split: option.split)

lemma unpack_overlong:
  assumes "length pre = 4" and "length rest \<le> le_value pre"
  shows "unpack P (pre @ rest) = unpack P (u32_bytes (of_nat (length rest)) @ rest)"
proof -
  have small: "length rest < 2 ^ 32"
    using assms le_value_bound [of pre] by simp
  show ?thesis
    using assms unpack_framed [OF small, of P "[]"]
    by (simp add: unpack_prefix split: option.split)
qed

lemma unpack_short:
  assumes "0 < length plain" and "length plain < 4"
  shows "unpack P plain = Inl RangeError"
proof -
  have "length plain mod 4 \<noteq> 0"
    using assms by simp
  then show ?thesis
    using assms
    by (simp add: unpack_def split_decrypted_def decrypt_metadataLength_def slice_def
        Uint32Array_view_def bind_result_def)
qed

lemma unpack_empty:
  "JSON_parse P (TextDecoder_decode P []) = None \<Longrightarrow> unpack P [] = Inl SyntaxError"
  by (simp add: unpack_def split_decrypted_def decrypt_metadataLength_def slice_def
      Uint32Array_view_def bind_result_def element0_def decrypt_metadataEnd_def)

lemma restored_object:
  "restored P (JObject props) fileContent =
     Inr \<lparr>blob = Blob_new P fileContent
              (or_else (map_of props (js ''type'')) (js ''application/octet-stream'')),
          filename = or_else (map_of props (js ''name'')) (js ''archivo_descifrado''),
          mimeType = or_else (map_of props (js ''type'')) (js ''application/octet-stream'')\<rparr>"
  by (simp add: restored_def property_def bind_result_def)

lemma restored_not_Error: "restored P metadata fileContent \<noteq> Inl (Error m)"
  by (auto simp add: restored_def bind_result_def property_def split: json.splits)

lemma unpack_not_Error: "unpack P plain \<noteq> Inl (Error m)"
  by (auto simp add: unpack_def split_decrypted_def bind_result_def decrypt_metadataLength_def
      Uint32Array_view_def restored_not_Error Let_def
      split: sum.splits option.splits if_splits prod.splits)

section \<open>Encryption and decryption as functions of their inputs\<close>

lemma encryptFile_container:
  "fst (encryptFile P f password onProgress e s) =
     Inr \<lparr>blob_parts = container P f password e, blob_type = js ''application/encrypted''\<rparr>"
  by (simp add: container_def encryptFile_fst)

lemma container_eq:
  "container P f password e =
     drawn_salt e @ drawn_iv e @
       subtle_encrypt P (deriveKey P password (drawn_salt e)) (drawn_iv e)
         (u32_bytes (of_nat (length (encrypt_metadataBytes P f)))
            @ encrypt_metadataBytes P f @ contents f)"
  by (simp add: container_def encryptFile_fst)

lemma map_of_metadata_record:
  "metadata_record f = JObject props \<Longrightarrow>
   map_of props (js ''name'') = Some (JString (name f))
   \<and> map_of props (js ''type'') = Some (JString (type f))"
  by (auto simp add: metadata_record_def js_def)

text \<open>
  Decrypting a container under the key that sealed it gives the framed plaintext back,
  and with it the metadata record.
\<close>

lemma opened_own_container:
  assumes "\<forall>key iv plain. aead_roundtrip P key iv plain"
  shows "opened P (container P f password e) password =
     Some (u32_bytes (of_nat (length (encrypt_metadataBytes P f)))
            @ encrypt_metadataBytes P f @ contents f)"
  using assms by (simp add: container_eq opened_container aead_roundtrip_def)

lemma parse_embedded_metadata:
  assumes "text_roundtrip P (encrypt_metadata P f)" and "json_roundtrip P (metadata_record f)"
  shows "JSON_parse P (TextDecoder_decode P (encrypt_metadataBytes P f))
      = Some (JObject [(js ''name'', JString (name f)), (js ''type'', JString (type f))])"
  using assms
  by (simp add: text_roundtrip_def json_roundtrip_def encrypt_metadataBytes_def
      encrypt_metadata_def metadata_record_def)

lemma decrypt_container:
  assumes len: "length (encrypt_metadataBytes P f) < 2 ^ 32"
    and txt_rt: "text_roundtrip P (encrypt_metadata P f)"
    and json_rt: "json_roundtrip P (metadata_record f)"
    and aead: "\<forall>key iv plain. aead_roundtrip P key iv plain"
  shows "fst (decryptFile P (container P f password e) password onProgress s) =
     Inr \<lparr>blob = Blob_new P (contents f)
              (or_else (Some (JString (type f))) (js ''application/octet-stream'')),
          filename = or_else (Some (JString (name f))) (js ''archivo_descifrado''),
          mimeType = or_else (Some (JString (type f))) (js ''application/octet-stream'')\<rparr>"
  by (simp add: decryptFile_fst opened_own_container [OF aead] unpack_framed [OF len]
      parse_embedded_metadata [OF txt_rt json_rt] restored_object js_def)

lemma u32_bytes_inject: "u32_bytes a = u32_bytes b \<Longrightarrow> a = b"
  using u32_elements_bytes [of a "[]"] u32_elements_bytes [of b "[]"] by simp

lemma ex_tag_length: "length (ex_tag key iv body) = 16"
  by (simp add: ex_tag_def length_u32_bytes)

lemma ex_decrypt_encrypt:
  "ex_decrypt key' iv (ex_encrypt key iv plain) =
     (if key' = key then Some plain else None)"
proof -
  let ?body = "map (\<lambda>b. b + ucast key) plain"
  have inj: "inj (\<lambda>b. b + c)" for c :: byte
    by (simp add: inj_on_def)
  have tag: "ex_tag key iv ?body = ex_tag key' iv ?body \<longleftrightarrow> key = key'"
    by (auto simp add: ex_tag_def inj_map_eq_map [OF inj] dest: u32_bytes_inject)
  have undo: "map ((\<lambda>b. b - ucast key) \<circ> (\<lambda>b. b + ucast key)) plain = plain"
    by (simp add: comp_def)
  show ?thesis
    using tag undo
    by (auto simp add: ex_encrypt_def ex_decrypt_def Let_def ex_tag_length)
qed

lemma ex_aead_roundtrip: "aead_roundtrip ex_platform key iv plain"
  by (simp add: aead_roundtrip_def ex_platform_def ex_decrypt_encrypt)


lemma ex_rejects_empty: "subtle_decrypt ex_platform key iv [] = None"
  by (simp add: ex_platform_def ex_decrypt_def)

text \<open>
  On the example platform a password and the same password followed by U+0000 derive
  the same key, as they do with PBKDF2 on any platform: HMAC fills its key with zero
  bytes up to the block length.
\<close>

lemma ex_nul_password:
  assumes "length p < 64"
  shows "deriveKey ex_platform (p @ [0]) salt = deriveKey ex_platform p salt"
proof -
  have "replicate (64 - length p) (0::byte) = 0 # replicate (63 - length p) 0"
    using assms by (cases "64 - length p") (simp_all add: Suc_diff_Suc)
  then show ?thesis
    using assms
    by (simp add: deriveKey_def ex_platform_def ex_deriveKey_def ex_encode_def hmac_block_def)
qed



text \<open>
  Two runs on the example platform. The \<^verbatim>\<open>Blob\<close> constructor puts a type in lower
  case. A container whose metadata is \<^verbatim>\<open>null\<close> is accepted and parsed, the last
  progress call is made, and reading \<^verbatim>\<open>metadata.type\<close> then throws.
\<close>

lemma normalize_type_example: "normalize_type (js ''Text/PLAIN'') = js ''text/plain''"
  by (simp add: normalize_type_def ascii_lowercase_def js_def)

lemma decryptFile_null_metadata:
  "decryptFile ex_platform (ex_seal ([4, 0, 0, 0] @ ex_encode (js ''null''))) ex_password
     (Some record_progress) [] = (Inl TypeError, [10, 20, 30, 50, 70, 100])"
  by code_simp

section \<open>Round trip\<close>

text \<open>
  C1 (as amended). For every byte buffer, every filename and MIME type that are not the
  empty string, and every password, decrypting the container that \<open>encryptFile\<close>
  produces with the same password returns exactly the original bytes, filename and MIME
  type. The platform is asked to give back the metadata text it encoded, the metadata
  record it serialised and the plaintext it encrypted, and the metadata is shorter than
  \<open>2 ^ 32\<close> bytes. Progress callbacks change nothing. The blob returned holds the
  bytes, with the type as the \<^verbatim>\<open>Blob\<close> constructor normalises it.
\<close>

theorem encrypt_decrypt_roundtrip:
  assumes "name f \<noteq> []" and "type f \<noteq> []"
    and "length (encrypt_metadataBytes P f) < 2 ^ 32"
    and "text_roundtrip P (encrypt_metadata P f)"
    and "json_roundtrip P (metadata_record f)"
    and "\<forall>key iv plain. aead_roundtrip P key iv plain"
  shows "fst (encryptFile P f password onProgress e s) =
       Inr \<lparr>blob_parts = container P f password e, blob_type = js ''application/encrypted''\<rparr>
     \<and> fst (decryptFile P (container P f password e) password onProgress' s') =
       Inr \<lparr>blob = \<lparr>blob_parts = contents f, blob_type = normalize_type (type f)\<rparr>,
            filename = JString (name f), mimeType = JString (type f)\<rparr>"
  using assms(1,2) decrypt_container [OF assms(3-6), of password e onProgress' s']
  by (simp add: encryptFile_container or_else_def Blob_new_def)

theorem encrypt_decrypt_roundtrip_witness:
  "name ex_file \<noteq> [] \<and> type ex_file \<noteq> []
   \<and> length (encrypt_metadataBytes ex_platform ex_file) < 2 ^ 32
   \<and> text_roundtrip ex_platform (encrypt_metadata ex_platform ex_file)
   \<and> json_roundtrip ex_platform (metadata_record ex_file)
   \<and> (\<forall>key iv plain. aead_roundtrip ex_platform key iv plain)
   \<and> fst (decryptFile ex_platform (container ex_platform ex_file ex_password ex_entropy)
         ex_password (None :: (real \<Rightarrow> unit \<Rightarrow> unit) option) ()) =
       Inr \<lparr>blob = \<lparr>blob_parts = [0x41, 0x42, 0x43], blob_type = js ''text/plain''\<rparr>,
            filename = JString (js ''a.txt''), mimeType = JString (js ''text/plain'')\<rparr>"
proof -
  have h1: "name ex_file \<noteq> []" and h2: "type ex_file \<noteq> []"
    by (simp_all add: ex_file_def js_def)
  have "length (encrypt_metadataBytes ex_platform ex_file) = 36"
    by code_simp
  then have h3: "length (encrypt_metadataBytes ex_platform ex_file) < 2 ^ 32"
    by simp
  have h4: "text_roundtrip ex_platform (encrypt_metadata ex_platform ex_file)"
    by code_simp
  have h5: "json_roundtrip ex_platform (metadata_record ex_file)"
    by code_simp
  have h6: "\<forall>key iv plain. aead_roundtrip ex_platform key iv plain"
    by (simp add: ex_aead_roundtrip)
  have sel: "contents ex_file = [0x41, 0x42, 0x43]" "name ex_file = js ''a.txt''"
    "type ex_file = js ''text/plain''"
    by (simp_all add: ex_file_def)
  have norm: "normalize_type (js ''text/plain'') = js ''text/plain''"
    by (simp add: normalize_type_def ascii_lowercase_def js_def)
  show ?thesis
    using encrypt_decrypt_roundtrip [OF h1 h2 h3 h4 h5 h6, of ex_password
        "(None :: (real \<Rightarrow> unit \<Rightarrow> unit) option)" ex_entropy "()" "(None :: (real \<Rightarrow> unit \<Rightarrow> unit) option)" "()"] h1 h2 h3 h4 h5 h6
    by (simp add: sel norm)
qed

text \<open>
  Without the restriction the statement fails: a file whose type is the empty string,
  as browsers report it for a file of unknown kind, comes back with the type
  \<^verbatim>\<open>application/octet-stream\<close>.
\<close>

theorem encrypt_decrypt_roundtrip_counterexample:
  "fst (decryptFile ex_platform (container ex_platform ex_untyped ex_password ex_entropy)
         ex_password (None :: (real \<Rightarrow> unit \<Rightarrow> unit) option) ()) =
       Inr \<lparr>blob = \<lparr>blob_parts = [1, 2, 3], blob_type = js ''application/octet-stream''\<rparr>,
            filename = JString (js ''notes''),
            mimeType = JString (js ''application/octet-stream'')\<rparr>
   \<and> fst (decryptFile ex_platform (container ex_platform ex_untyped ex_password ex_entropy)
         ex_password (None :: (real \<Rightarrow> unit \<Rightarrow> unit) option) ()) \<noteq>
       Inr \<lparr>blob = \<lparr>blob_parts = contents ex_untyped,
                      blob_type = normalize_type (type ex_untyped)\<rparr>,
            filename = JString (name ex_untyped), mimeType = JString (type ex_untyped)\<rparr>"
  by code_simp

section \<open>Container layout\<close>

text \<open>
  C5. Every encryption succeeds, and its output is the 16 salt bytes, then the 12 nonce
  bytes, then the ciphertext of the inner plaintext, with no length fields: the total
  length is 16 + 12 + the length of the ciphertext, and \<open>decryptFile\<close> finds salt
  and nonce again by position.
\<close>

theorem container_layout:
  "fst (encryptFile P f password onProgress e s) =
       Inr \<lparr>blob_parts = container P f password e, blob_type = js ''application/encrypted''\<rparr>
   \<and> (\<exists>plain. dataToEncrypt P f = Inr plain
        \<and> container P f password e = drawn_salt e @ drawn_iv e @
            subtle_encrypt P (deriveKey P password (drawn_salt e)) (drawn_iv e) plain
        \<and> length (container P f password e) = 16 + 12 +
            length (subtle_encrypt P (deriveKey P password (drawn_salt e)) (drawn_iv e) plain))
   \<and> length (drawn_salt e) = 16 \<and> length (drawn_iv e) = 12
   \<and> slice (container P f password e) 0 SALT_LENGTH = drawn_salt e
   \<and> slice (container P f password e) SALT_LENGTH (SALT_LENGTH + IV_LENGTH) = drawn_iv e"
  by (simp add: encryptFile_container dataToEncrypt_eq container_eq slice_def SALT_LENGTH_def
      IV_LENGTH_def)



section \<open>Progress\<close>

text \<open>
  C8. When \<open>encryptFile\<close> is given a progress callback, here the one that records its
  arguments, the encryption succeeds and the values passed are 10, 20, 30, 50, 70, 90,
  100: a non-decreasing sequence of integers that ends with 100. For any callback the
  final state is the fold of the callback over this sequence (lemma
  \<open>encryptFile_progress\<close>).
\<close>

theorem encrypt_progress:
  "snd (snd (encryptFile P f password (Some record_progress) e [])) = [10, 20, 30, 50, 70, 90, 100]
   \<and> sorted (snd (snd (encryptFile P f password (Some record_progress) e [])))
   \<and> (\<forall>p \<in> set (snd (snd (encryptFile P f password (Some record_progress) e []))). p \<in> \<int>)
   \<and> last (snd (snd (encryptFile P f password (Some record_progress) e []))) = 100
   \<and> (\<exists>b. fst (encryptFile P f password (Some record_progress) e []) = Inr b)"
  by (simp add: encryptFile_progress report_def record_progress_def encryptFile_container)

theorem encrypt_progress_witness:
  "(30::real) \<in> set (snd (snd (encryptFile ex_platform ex_file ex_password
       (Some record_progress) ex_entropy []))) \<and> (30::real) \<in> \<int>"
  using encrypt_progress [of ex_platform ex_file ex_password ex_entropy] by simp

section \<open>Empty metadata fields\<close>



section \<open>Decryption failures\<close>




text \<open>
  C4. Whatever makes AES-GCM reject a container (a wrong password, a changed or a
  truncated ciphertext, a changed salt or nonce), \<open>decryptFile\<close> fails with the same
  error and the same message, after the same calls of the progress callback: any two
  such calls give equal results, so the cause cannot be read off the failure.
\<close>

theorem single_failure_kind:
  assumes "opened P data1 password1 = None" and "opened P data2 password2 = None"
  shows "fst (decryptFile P data1 password1 onProgress s) = Inl (Error auth_message)
     \<and> fst (decryptFile P data2 password2 onProgress s) = Inl (Error auth_message)
     \<and> decryptFile P data1 password1 onProgress s = decryptFile P data2 password2 onProgress s"
  using assms
  by (simp add: decryptFile_fst prod_eq_iff decryptFile_progress_rejected)

theorem single_failure_kind_witness:
  "opened ex_platform (container ex_platform ex_file ex_password ex_entropy) (js ''wrong horse'')
     = None
   \<and> opened ex_platform (take 40 (container ex_platform ex_file ex_password ex_entropy))
       ex_password = None
   \<and> decryptFile ex_platform (container ex_platform ex_file ex_password ex_entropy)
        (js ''wrong horse'') (Some record_progress) []
     = decryptFile ex_platform (take 40 (container ex_platform ex_file ex_password ex_entropy))
        ex_password (Some record_progress) []"
proof -
  have h1: "opened ex_platform (container ex_platform ex_file ex_password ex_entropy)
      (js ''wrong horse'') = None"
    by code_simp
  have h2: "opened ex_platform (take 40 (container ex_platform ex_file ex_password ex_entropy))
       ex_password = None"
    by code_simp
  show ?thesis
    using single_failure_kind [OF h1 h2, where onProgress = "Some record_progress"
        and s = "[]"] h1 h2 by simp
qed

text \<open>
  C2 (as amended). \<open>decryptFile\<close> has no error of its own for a malformed container.
  An input shorter than 28 bytes leaves an empty ciphertext; on a platform that rejects
  the empty ciphertext (AES-GCM rejects every ciphertext shorter than its 16-byte tag)
  \<open>decryptFile\<close> fails with \<open>Error auth_message\<close>, the error of a wrong password. A
  length prefix larger than the number of bytes that follow it is read as that number:
  all the bytes that follow are the metadata and the file is empty. A decrypted
  plaintext of one, two or three bytes ends in a \<^verbatim>\<open>RangeError\<close>, and an empty one
  in the \<^verbatim>\<open>SyntaxError\<close> of parsing the empty text.
\<close>

theorem no_malformed_container_error:
  "(length data < 28 \<and> (\<forall>key iv. subtle_decrypt P key iv [] = None) \<longrightarrow>
      fst (decryptFile P data password onProgress s) = Inl (Error auth_message))
   \<and> (\<forall>pre rest. length pre = 4 \<and> length rest \<le> le_value pre \<longrightarrow>
        unpack P (pre @ rest) = unpack P (u32_bytes (of_nat (length rest)) @ rest))
   \<and> (\<forall>plain. 0 < length plain \<and> length plain < 4 \<longrightarrow>
        unpack P plain = Inl RangeError)
   \<and> (JSON_parse P (TextDecoder_decode P []) = None \<longrightarrow> unpack P [] = Inl SyntaxError)
   \<and> (\<forall>plain. opened P data password = Some plain \<longrightarrow>
        fst (decryptFile P data password onProgress s) = unpack P plain)"
  by (simp add: decryptFile_fst opened_def SALT_LENGTH_def IV_LENGTH_def unpack_overlong
      unpack_short unpack_empty)

theorem no_malformed_container_error_witness:
  "length [1, 2, 3 :: byte] < 28 \<and> (\<forall>key iv. subtle_decrypt ex_platform key iv [] = None)
   \<and> fst (decryptFile ex_platform [1, 2, 3] ex_password
         (None :: (real \<Rightarrow> unit \<Rightarrow> unit) option) ()) = Inl (Error auth_message)
   \<and> length [0xE8, 3, 0, 0 :: byte] = 4
   \<and> length (ex_encode (js ''{}'')) \<le> le_value [0xE8, 3, 0, 0]
   \<and> unpack ex_platform ([0xE8, 3, 0, 0] @ ex_encode (js ''{}''))
       = unpack ex_platform (u32_bytes (of_nat (length (ex_encode (js ''{}''))))
           @ ex_encode (js ''{}''))
   \<and> 0 < length [1, 2 :: byte] \<and> length [1, 2 :: byte] < 4
   \<and> unpack ex_platform [1, 2] = Inl RangeError
   \<and> JSON_parse ex_platform (TextDecoder_decode ex_platform []) = None
   \<and> unpack ex_platform [] = Inl SyntaxError
   \<and> opened ex_platform (ex_seal [1, 2]) ex_password = Some [1, 2]
   \<and> fst (decryptFile ex_platform (ex_seal [1, 2]) ex_password (None :: (real \<Rightarrow> unit \<Rightarrow> unit) option) ())
       = unpack ex_platform [1, 2]"
proof -
  have h1: "\<forall>key iv. subtle_decrypt ex_platform key iv [] = None"
    by (simp add: ex_platform_def ex_decrypt_def)
  have h2: "length (ex_encode (js ''{}'')) \<le> le_value [0xE8, 3, 0, 0]"
    by (simp add: ex_encode_def js_def)
  have h3: "JSON_parse ex_platform (TextDecoder_decode ex_platform []) = None"
    by (simp add: ex_platform_def ex_decode_def ex_parse_def)
  note claim = no_malformed_container_error [of "[1, 2, 3]" ex_platform ex_password
        "None :: (real \<Rightarrow> unit \<Rightarrow> unit) option" "()"]
  have short: "fst (decryptFile ex_platform [1, 2, 3] ex_password
         (None :: (real \<Rightarrow> unit \<Rightarrow> unit) option) ()) = Inl (Error auth_message)"
    using claim h1 by simp
  have "unpack ex_platform ([0xE8, 3, 0, 0] @ ex_encode (js ''{}''))
       = unpack ex_platform (u32_bytes (of_nat (length (ex_encode (js ''{}''))))
           @ ex_encode (js ''{}''))"
    using claim [THEN conjunct2, THEN conjunct1, rule_format,
        of "[0xE8, 3, 0, 0]" "ex_encode (js ''{}'')"] h2
    by simp
  moreover have "unpack ex_platform [1, 2] = Inl RangeError"
    using claim [THEN conjunct2, THEN conjunct2, THEN conjunct1, rule_format, of "[1, 2]"]
    by simp
  moreover have "unpack ex_platform [] = Inl SyntaxError"
    using claim [THEN conjunct2, THEN conjunct2, THEN conjunct2, THEN conjunct1] h3 by simp
  moreover have h4: "opened ex_platform (ex_seal [1, 2]) ex_password = Some [1, 2]"
    by code_simp
  moreover have "fst (decryptFile ex_platform (ex_seal [1, 2]) ex_password (None :: (real \<Rightarrow> unit \<Rightarrow> unit) option) ())
       = unpack ex_platform [1, 2]"
    using no_malformed_container_error [of "ex_seal [1, 2]" ex_platform ex_password
        "(None :: (real \<Rightarrow> unit \<Rightarrow> unit) option)" "()"] h4
    by simp
  ultimately show ?thesis
    using short h1 h2 h3 by simp
qed

text \<open>
  A three-byte input fails with the error of a wrong password, and a container whose
  length prefix says 1000 where two bytes of metadata follow is decrypted without any
  error.
\<close>

theorem no_malformed_container_error_counterexample:
  "fst (decryptFile ex_platform [1, 2, 3] ex_password
         (None :: (real \<Rightarrow> unit \<Rightarrow> unit) option) ()) = Inl (Error auth_message)
   \<and> fst (decryptFile ex_platform (ex_seal ([0xE8, 3, 0, 0] @ ex_encode (js ''{}'')))
         ex_password (None :: (real \<Rightarrow> unit \<Rightarrow> unit) option) ())
     = Inr \<lparr>blob = \<lparr>blob_parts = [], blob_type = js ''application/octet-stream''\<rparr>,
            filename = JString (js ''archivo_descifrado''),
            mimeType = JString (js ''application/octet-stream'')\<rparr>"
  by code_simp



section \<open>The unit of a file size\<close>

lemma unit_index_log: "unit_index 1024 bytes = \<lfloor>log 1024 (real bytes)\<rfloor>"
  by (simp add: unit_index_def log_def)

lemma unit_index_ge: "0 < bytes \<Longrightarrow> int j \<le> unit_index 1024 bytes \<longleftrightarrow> 1024 ^ j \<le> bytes"
proof -
  assume pos: "0 < bytes"
  have "int j \<le> unit_index 1024 bytes \<longleftrightarrow> real j \<le> log 1024 (real bytes)"
    by (simp add: unit_index_log le_floor_iff)
  also have "\<dots> \<longleftrightarrow> 1024 powr real j \<le> real bytes"
    using pos by (simp add: le_log_iff)
  also have "\<dots> \<longleftrightarrow> (1024::real) ^ j \<le> real bytes"
    by (simp add: powr_realpow)
  also have "\<dots> \<longleftrightarrow> 1024 ^ j \<le> bytes"
    by (metis of_nat_le_iff of_nat_numeral of_nat_power)
  finally show ?thesis .
qed

lemma unit_index_eq:
  assumes "1024 ^ j \<le> bytes" and "bytes < 1024 ^ Suc j"
  shows "unit_index 1024 bytes = int j"
proof -
  have pos: "0 < bytes"
    using assms(1) by (metis less_le_trans zero_less_numeral zero_less_power)
  have "int j \<le> unit_index 1024 bytes"
    using assms(1) pos by (simp add: unit_index_ge)
  moreover have "\<not> int (Suc j) \<le> unit_index 1024 bytes"
    using assms(2) pos by (simp only: unit_index_ge)
  ultimately show ?thesis by simp
qed

lemma at_index_sizes:
  "at_index sizes i = None \<longleftrightarrow> i < 0 \<or> 4 \<le> i"
  by (auto simp add: at_index_def sizes_def)

text \<open>
  C10. For every byte count of at least \<open>1024 ^ 4\<close> the unit index that
  \<open>formatFileSize\<close> computes is at least 4, past the end of the four units, so the
  lookup yields no unit and the result ends with the word \<^verbatim>\<open>undefined\<close>; for byte
  counts from 1 up to \<open>1024 ^ 4\<close>, exclusive, the index is within bounds; and
  \<open>formatFileSize 0\<close> is \<^verbatim>\<open>0 B\<close>.
\<close>

theorem formatFileSize_unit:
  "(1024 ^ 4 \<le> bytes \<longrightarrow>
      4 \<le> unit_index 1024 bytes \<and> at_index sizes (unit_index 1024 bytes) = None
      \<and> (\<exists>n. formatFileSize bytes = n @ js '' undefined''))
   \<and> (1 \<le> bytes \<and> bytes < 1024 ^ 4 \<longrightarrow>
      0 \<le> unit_index 1024 bytes \<and> unit_index 1024 bytes < 4
      \<and> at_index sizes (unit_index 1024 bytes) = Some (sizes ! nat (unit_index 1024 bytes))
      \<and> (\<exists>n. formatFileSize bytes = n @ js '' '' @ sizes ! nat (unit_index 1024 bytes)))
   \<and> formatFileSize 0 = js ''0 B''"
proof (intro conjI impI)
  assume big: "1024 ^ 4 \<le> bytes"
  then have pos: "0 < bytes"
    by (metis less_le_trans zero_less_numeral zero_less_power)
  show four: "4 \<le> unit_index 1024 bytes"
    using big unit_index_ge [OF pos, of 4] by simp
  then show none: "at_index sizes (unit_index 1024 bytes) = None"
    by (simp add: at_index_sizes)
  show "\<exists>n. formatFileSize bytes = n @ js '' undefined''"
    using pos none by (simp add: formatFileSize_def Let_def js_def)
next
  assume small: "1 \<le> bytes \<and> bytes < 1024 ^ 4"
  then have pos: "0 < bytes" by simp
  show lo: "0 \<le> unit_index 1024 bytes"
    using small unit_index_ge [OF pos, of 0] by simp
  show hi: "unit_index 1024 bytes < 4"
    using small unit_index_ge [OF pos, of 4] by simp
  show some: "at_index sizes (unit_index 1024 bytes) = Some (sizes ! nat (unit_index 1024 bytes))"
    using lo hi by (simp add: at_index_def sizes_def)
  show "\<exists>n. formatFileSize bytes = n @ js '' '' @ sizes ! nat (unit_index 1024 bytes)"
    using pos some by (simp add: formatFileSize_def Let_def)
next
  show "formatFileSize 0 = js ''0 B''"
    by (simp add: formatFileSize_def)
qed

theorem formatFileSize_unit_witness:
  "(1024::nat) ^ 4 \<le> 1099511627776 \<and> at_index sizes (unit_index 1024 1099511627776) = None
   \<and> formatFileSize 1099511627776 = js ''1 undefined''
   \<and> (1::nat) \<le> 1536 \<and> (1536::nat) < 1024 ^ 4
   \<and> at_index sizes (unit_index 1024 1536) = Some (js ''KB'')"
proof -
  have i: "unit_index 1024 1536 = int 1"
    by (rule unit_index_eq) simp_all
  have j: "unit_index 1024 1099511627776 = int 4"
    by (rule unit_index_eq) simp_all
  have f: "formatFileSize 1099511627776 = js ''1 undefined''"
    by (simp add: formatFileSize_def j Let_def toFixed1_def print_tenths_def at_index_def
        sizes_def js_def)
  show ?thesis
    using formatFileSize_unit [of 1099511627776] formatFileSize_unit [of 1536] f
    by (simp add: i sizes_def)
qed

end
